theory Spec2Isabelle
  imports Complex_Main
begin

section \<open>Data model\<close>

text \<open>
  The statement tables are pandas data frames of float64 values. A value is modelled as an
  exact real, or \<open>None\<close> for NaN (a missing value); arithmetic on present values is exact.
  A frame has row labels (the line items), column labels (the periods, in the order the
  provider supplies them, newest first for the provider used) and one cell for every
  label and period. Row and column labels are taken to be free of duplicates.
\<close>

type_synonym cell = "real option"

type_synonym period = int

type_synonym series = "(period \<times> cell) list"

record frame =
  index :: "string list"
  columns :: "period list"
  cells :: "string \<Rightarrow> period \<Rightarrow> cell"

text \<open>\<^verbatim>\<open>df.empty\<close>: one of the two axes has length 0.\<close>

definition empty :: "frame \<Rightarrow> bool" where
  "empty df = (index df = [] \<or> columns df = [])"

text \<open>\<^verbatim>\<open>df.loc[name]\<close>, for a label of the index: the row as a series over the columns.\<close>

definition loc :: "frame \<Rightarrow> string \<Rightarrow> series" where
  "loc df name = map (\<lambda>p. (p, cells df name p)) (columns df)"

text \<open>\<^verbatim>\<open>series.sort_index()\<close>: ascending by period.\<close>

definition sort_index :: "series \<Rightarrow> series" where
  "sort_index s = sort_key fst s"

text \<open>
  \<^verbatim>\<open>df.iloc[:, 0].get(name, None)\<close> on a frame that is not empty: the cell of the first
  column, or Python's \<open>None\<close> when the label is not in the index.
\<close>

definition iloc0_get :: "frame \<Rightarrow> string \<Rightarrow> cell option" where
  "iloc0_get df name =
     (if name \<in> set (index df) then Some (cells df name (hd (columns df))) else None)"

text \<open>
  Addition of two rows of one frame. Both series carry the frame's columns as their index,
  so pandas adds them position by position and keeps the order of the columns; a NaN operand
  gives NaN.
\<close>

definition fadd :: "cell \<Rightarrow> cell \<Rightarrow> cell" where
  "fadd x y = (case (x, y) of (Some u, Some v) \<Rightarrow> Some (u + v) | _ \<Rightarrow> None)"

definition series_add :: "series \<Rightarrow> series \<Rightarrow> series" where
  "series_add a b = map (\<lambda>((p, x), (q, y)). (p, fadd x y)) (zip a b)"

section \<open>Trend detection\<close>

text \<open>
  \<^verbatim>\<open>LinearRegression().fit(X, y).coef_[0]\<close> for one feature: the coefficient of the
  least-squares line with intercept, the centred cross products over the centred squares.
\<close>

definition mean :: "real list \<Rightarrow> real" where
  "mean xs = sum_list xs / real (length xs)"

definition ols_slope :: "real list \<Rightarrow> real list \<Rightarrow> real" where
  "ols_slope xs ys =
     (let mx = mean xs; my = mean ys
      in (\<Sum>(x, y) \<leftarrow> zip xs ys. (x - mx) * (y - my)) / (\<Sum>x \<leftarrow> xs. (x - mx)\<^sup>2))"

definition check_trend_with_regression :: "series \<Rightarrow> bool \<Rightarrow> bool" where
  "check_trend_with_regression data_series increasing =
     (if length data_series < 2 then False
      else
        let years = [0..<length data_series];
            vals = map snd data_series;
            valid = filter (\<lambda>(y, v). v \<noteq> None) (zip years vals)
        in if length valid < 2 then False
           else
             let years_clean = map (\<lambda>(y, v). real y) valid;
                 values_clean = map (\<lambda>(y, v). the v) valid;
                 slope = ols_slope years_clean values_clean
             in if increasing then slope > 0 else slope < 0)"

text \<open>
  Notions for stating what the detector computes: the entries of a series whose value is
  not missing, the points that enter the regression (the position of an entry in the
  series together with its value, for the entries that are not NaN), and the slope fitted
  to these points.
\<close>

definition non_missing :: "series \<Rightarrow> series" where
  "non_missing s = filter (\<lambda>(p, v). v \<noteq> None) s"

definition valid_points :: "series \<Rightarrow> (nat \<times> cell) list" where
  "valid_points s = filter (\<lambda>(y, v). v \<noteq> None) (zip [0..<length s] (map snd s))"

definition fitted_slope :: "series \<Rightarrow> real" where
  "fitted_slope s =
     ols_slope (map (\<lambda>(y, v). real y) (valid_points s)) (map (\<lambda>(y, v). the v) (valid_points s))"

section \<open>The ten checks\<close>

text \<open>
  The rendering of a float as text is Python's and is taken as a parameter:
  \<open>fmt2 v\<close> is \<^verbatim>\<open>f"{v:.2f}"\<close>, \<open>fmt2_quot a b\<close> is \<^verbatim>\<open>f"{a / b:.2f}"\<close> for two floats of a
  table (the quotient may be inf or nan), \<open>fmt0 v\<close> is \<^verbatim>\<open>f"{v:,.0f}"\<close>, \<open>str_float v\<close> is
  \<^verbatim>\<open>f"{v}"\<close> and \<open>year_str d\<close> is \<^verbatim>\<open>f"{d.year}"\<close>.
\<close>

record formats =
  fmt2 :: "real \<Rightarrow> string"
  fmt2_quot :: "cell \<Rightarrow> cell \<Rightarrow> string"
  fmt0 :: "cell \<Rightarrow> string"
  str_float :: "real \<Rightarrow> string"
  year_str :: "period \<Rightarrow> string"

record check =
  id_c :: nat
  name :: string
  description :: string
  passed :: bool
  details :: string

text \<open>
  The metrics (\<^verbatim>\<open>stock.info\<close>) are a dictionary from names to numbers; a metric that is
  absent is a key that is not there, and \<^verbatim>\<open>info.get(k, None)\<close> is \<open>map_of info k\<close>.
\<close>

type_synonym metrics = "(string \<times> real) list"

text \<open>Comparison of two floats: false as soon as one of them is NaN.\<close>

definition fgt :: "cell \<Rightarrow> cell \<Rightarrow> bool" where
  "fgt x y = (case (x, y) of (Some u, Some v) \<Rightarrow> u > v | _ \<Rightarrow> False)"

definition fabs :: "cell \<Rightarrow> cell" where
  "fabs x = map_option abs x"

definition check1 :: "formats \<Rightarrow> metrics \<Rightarrow> check" where
  "check1 F infos =
     (let pe_ratio = map_of infos ''trailingPE'';
          peg_ratio = map_of infos ''trailingPegRatio'';
          pe_good = (case pe_ratio of None \<Rightarrow> False | Some v \<Rightarrow> v < 25);
          peg_good = (case peg_ratio of None \<Rightarrow> False | Some v \<Rightarrow> v < 1);
          check1_pass = (pe_good \<or> peg_good);
          pe_text = (case pe_ratio of None \<Rightarrow> ''PE: N/A''
                     | Some v \<Rightarrow> if v \<noteq> 0 then ''PE: '' @ fmt2 F v else ''PE: N/A'');
          peg_text = (case peg_ratio of None \<Rightarrow> ''PEG: N/A''
                      | Some v \<Rightarrow> if v \<noteq> 0 then ''PEG: '' @ fmt2 F v else ''PEG: N/A'')
      in \<lparr>id_c = 1, name = ''P/E < 25 || PEG < 1.0'', description = ''Valuation metrics'',
          passed = check1_pass, details = pe_text @ '', '' @ peg_text\<rparr>)"

definition check2 :: "frame \<Rightarrow> check" where
  "check2 fin =
     (let (check2_pass, revenue_details) =
            (if \<not> empty fin \<and> ''Total Revenue'' \<in> set (index fin) then
               let revenue_data = sort_index (loc fin ''Total Revenue'');
                   p = check_trend_with_regression revenue_data True
               in (p, if p then ''Positive trend detected'' else ''No clear growth trend'')
             else (False, ''No data available''))
      in \<lparr>id_c = 2, name = ''Revenue Growth'', description = ''5-year increasing trend'',
          passed = check2_pass, details = revenue_details\<rparr>)"

definition check3 :: "frame \<Rightarrow> check" where
  "check3 fin =
     (let (check3_pass, op_details) =
            (if \<not> empty fin \<and> ''Operating Income'' \<in> set (index fin) then
               let op_income_data = sort_index (loc fin ''Operating Income'');
                   p = check_trend_with_regression op_income_data True
               in (p, if p then ''Consistent growth pattern'' else ''Declining or flat trend'')
             else (False, ''No data available''))
      in \<lparr>id_c = 3, name = ''Operating Income Growth'', description = ''5-year increasing trend'',
          passed = check3_pass, details = op_details\<rparr>)"

definition check4 :: "frame \<Rightarrow> check" where
  "check4 fin =
     (let (check4_pass, net_details) =
            (if \<not> empty fin \<and> ''Net Income'' \<in> set (index fin) then
               let net_income_data = sort_index (loc fin ''Net Income'');
                   p = check_trend_with_regression net_income_data True
               in (p, if p then ''Strong profitability trend'' else ''Declining profitability'')
             else (False, ''No data available''))
      in \<lparr>id_c = 4, name = ''Net Income Growth'', description = ''5-year increasing trend'',
          passed = check4_pass, details = net_details\<rparr>)"

definition check5 :: "formats \<Rightarrow> frame \<Rightarrow> check" where
  "check5 F bs =
     (let (check5_pass, liquidity_details) =
            (if \<not> empty bs then
               (case (iloc0_get bs ''Current Assets'', iloc0_get bs ''Current Liabilities'') of
                  (Some current_assets, Some current_liabilities) \<Rightarrow>
                    let p = fgt current_assets current_liabilities;
                        ratio = fmt2_quot F current_assets current_liabilities
                    in (p, if p then ''Current ratio: '' @ ratio
                           else ''Poor liquidity - ratio: '' @ ratio)
                | _ \<Rightarrow> (False, ''Balance sheet data incomplete''))
             else (False, ''No data available''))
      in \<lparr>id_c = 5, name = ''Current Assets > Current Liabilities'',
          description = ''Liquidity position'',
          passed = check5_pass, details = liquidity_details\<rparr>)"

text \<open>
  The guard of the division of check 6,
  \<^verbatim>\<open>long_term_debt is not None and latest_net_income is not None and latest_net_income > 0\<close>:
  the operands of the division when it is evaluated. The net income is read from a series
  and is never Python's \<open>None\<close>; a NaN fails the comparison with 0.
\<close>

definition check6_guard :: "cell option \<Rightarrow> cell \<Rightarrow> (cell \<times> real) option" where
  "check6_guard long_term_debt latest_net_income =
     (case (long_term_debt, latest_net_income) of
        (Some d, Some n) \<Rightarrow> if n > 0 then Some (d, n) else None
      | _ \<Rightarrow> None)"

definition check6 :: "formats \<Rightarrow> frame \<Rightarrow> frame \<Rightarrow> check" where
  "check6 F fin bs =
     (let (check6_pass, debt_details) =
            (if \<not> empty bs \<and> \<not> empty fin then
               let long_term_debt = iloc0_get bs ''Long Term Debt''
               in if ''Net Income'' \<in> set (index fin) then
                    let latest_net_income = snd (hd (loc fin ''Net Income''))
                    in (case check6_guard long_term_debt latest_net_income of
                          Some (d, n) \<Rightarrow>
                            let p = (case d of None \<Rightarrow> False | Some v \<Rightarrow> v / n < 4);
                                debt_ratio = fmt2_quot F d (Some n)
                            in (p, if p then ''Debt/Profit ratio: '' @ debt_ratio
                                   else ''High debt ratio: '' @ debt_ratio)
                        | None \<Rightarrow> (False, ''Insufficient data for calculation''))
                  else (False, ''No data available'')
             else (False, ''No data available''))
      in \<lparr>id_c = 6, name = ''Long-term Debt/Net Profit < 4'', description = ''Debt management'',
          passed = check6_pass, details = debt_details\<rparr>)"

definition check7 :: "frame \<Rightarrow> check" where
  "check7 bs =
     (let (check7_pass, equity_details) =
            (if \<not> empty bs \<and> ''Stockholders Equity'' \<in> set (index bs) then
               let equity_data = sort_index (loc bs ''Stockholders Equity'');
                   p = check_trend_with_regression equity_data True
               in (p, if p then ''Growing shareholder value'' else ''Declining equity trend'')
             else (False, ''No data available''))
      in \<lparr>id_c = 7, name = ''Stockholders' Equity Growth'',
          description = ''5-year increasing trend'',
          passed = check7_pass, details = equity_details\<rparr>)"

definition check8 :: "frame \<Rightarrow> check" where
  "check8 bs =
     (let (check8_pass, shares_details) =
            (if \<not> empty bs \<and> ''Ordinary Shares Number'' \<in> set (index bs) then
               let shares_data = sort_index (loc bs ''Ordinary Shares Number'');
                   p = check_trend_with_regression shares_data False
               in (p, if p then ''Active share repurchase program''
                      else ''No significant buyback activity'')
             else (False, ''No data available''))
      in \<lparr>id_c = 8, name = ''Shares Outstanding Decreasing'',
          description = ''Share buyback trend'',
          passed = check8_pass, details = shares_details\<rparr>)"

text \<open>
  A comparison of check 9, \<^verbatim>\<open>a is not None and b is not None and a > abs(b)\<close>, on two
  results of \<^verbatim>\<open>get\<close>.
\<close>

definition exceeds_abs :: "cell option \<Rightarrow> cell option \<Rightarrow> bool" where
  "exceeds_abs a b =
     (case (a, b) of (Some x, Some y) \<Rightarrow> fgt x (fabs y) | _ \<Rightarrow> False)"

definition check9 :: "frame \<Rightarrow> check" where
  "check9 cf =
     (let (check9_pass, cf_details) =
            (if \<not> empty cf then
               let operating_cf = iloc0_get cf ''Operating Cash Flow'';
                   investing_cf = iloc0_get cf ''Investing Cash Flow'';
                   financing_cf = iloc0_get cf ''Financing Cash Flow'';
                   op_vs_inv = exceeds_abs operating_cf investing_cf;
                   op_vs_fin = exceeds_abs operating_cf financing_cf;
                   p = (op_vs_inv \<and> op_vs_fin)
               in (p, if p then ''Strong operational cash generation''
                      else ''Weak cash flow position'')
             else (False, ''No data available''))
      in \<lparr>id_c = 9, name = ''Operating CF > Investing & Financing CF'',
          description = ''Cash flow strength'',
          passed = check9_pass, details = cf_details\<rparr>)"

definition check10 :: "frame \<Rightarrow> check" where
  "check10 cf =
     (let (check10_pass, fcf_details) =
            (if \<not> empty cf then
               if ''Free Cash Flow'' \<in> set (index cf) then
                 let fcf_data = sort_index (loc cf ''Free Cash Flow'');
                     p = check_trend_with_regression fcf_data True
                 in (p, if p then ''Consistent FCF improvement''
                        else ''Declining free cash flow'')
               else if ''Operating Cash Flow'' \<in> set (index cf)
                       \<and> ''Capital Expenditures'' \<in> set (index cf) then
                 let operating_cf = loc cf ''Operating Cash Flow'';
                     capex = loc cf ''Capital Expenditures'';
                     fcf_calculated = series_add operating_cf capex;
                     p = check_trend_with_regression fcf_calculated True
                 in (p, if p then ''Improving calculated FCF''
                        else ''Declining calculated FCF'')
               else (False, ''No data available'')
             else (False, ''No data available''))
      in \<lparr>id_c = 10, name = ''Free Cash Flow Growth'',
          description = ''5-year increasing trend'',
          passed = check10_pass, details = fcf_details\<rparr>)"

section \<open>The report\<close>

text \<open>
  The lines of a series in the report: one line for every value that is not NaN
  (\<^verbatim>\<open>pd.notna\<close>), in the order of the series.
\<close>

definition series_lines :: "formats \<Rightarrow> string \<Rightarrow> string \<Rightarrow> series \<Rightarrow> string" where
  "series_lines F indent unit_s s =
     concat (map (\<lambda>(date, v).
        if v \<noteq> None then indent @ year_str F date @ '': '' @ unit_s @ fmt0 F v @ ''\<newline>''
        else []) s)"

text \<open>
  A latest value in the report, read with \<^verbatim>\<open>get(label, 'N/A')\<close>: a float (NaN included)
  differs from the text \<^verbatim>\<open>'N/A'\<close> and is printed.
\<close>

definition latest_line :: "formats \<Rightarrow> string \<Rightarrow> cell option \<Rightarrow> string" where
  "latest_line F label v =
     (case v of Some c \<Rightarrow> label @ ''$'' @ fmt0 F c @ ''\<newline>''
      | None \<Rightarrow> label @ ''N/A'' @ ''\<newline>'')"

definition series_section :: "formats \<Rightarrow> frame \<Rightarrow> string \<Rightarrow> string \<Rightarrow> string" where
  "series_section F df label missing =
     (if \<not> empty df \<and> label \<in> set (index df)
      then series_lines F ''   '' ''$'' (sort_index (loc df label))
      else missing)"

definition generate_detailed_analysis ::
  "formats \<Rightarrow> string \<Rightarrow> metrics \<Rightarrow> frame \<Rightarrow> frame \<Rightarrow> frame \<Rightarrow> string" where
  "generate_detailed_analysis F ticker infos fin bs cf =
     ''STOCK ANALYSIS FOR '' @ ticker @ ''\<newline>''
     @ replicate 60 (CHR ''='') @ ''\<newline>\<newline>''
     @ ''1. Latest PE Ratio: ''
     @ (case map_of infos ''trailingPE'' of None \<Rightarrow> ''N/A'' | Some v \<Rightarrow> str_float F v)
     @ ''\<newline>''
     @ ''   PEG Ratio: ''
     @ (case map_of infos ''trailingPegRatio'' of None \<Rightarrow> ''N/A'' | Some v \<Rightarrow> str_float F v)
     @ ''\<newline>\<newline>''
     @ ''2. Revenue for the past 5 years:\<newline>''
     @ series_section F fin ''Total Revenue'' ''   Revenue data not available\<newline>''
     @ ''\<newline>''
     @ ''3. Operating Income for the past 5 years:\<newline>''
     @ series_section F fin ''Operating Income''
         ''   Operating Income data not available\<newline>''
     @ ''\<newline>''
     @ ''4. Net Income for the past 5 years:\<newline>''
     @ series_section F fin ''Net Income'' ''   Net Income data not available\<newline>''
     @ ''\<newline>''
     @ ''5. Latest Current Assets and Current Liabilities:\<newline>''
     @ (if \<not> empty bs then
          latest_line F ''   Current Assets: '' (iloc0_get bs ''Current Assets'')
          @ latest_line F ''   Current Liabilities: '' (iloc0_get bs ''Current Liabilities'')
        else ''   Balance sheet data not available\<newline>'')
     @ ''\<newline>''
     @ ''6. Latest Long Term Debt:\<newline>''
     @ (if \<not> empty bs then latest_line F ''   '' (iloc0_get bs ''Long Term Debt'')
        else ''   Balance sheet data not available\<newline>'')
     @ ''\<newline>''
     @ ''7. Stockholders' Equity for the past 5 years:\<newline>''
     @ series_section F bs ''Stockholders Equity''
         ''   Stockholders' Equity data not available\<newline>''
     @ ''\<newline>''
     @ ''8. Shares Outstanding for the past 5 years:\<newline>''
     @ (case map_of infos ''sharesOutstanding'' of
          Some v \<Rightarrow> ''   Latest: '' @ fmt0 F (Some v) @ ''\<newline>''
        | None \<Rightarrow> ''   Current shares outstanding not available\<newline>'')
     @ (if \<not> empty bs \<and> ''Ordinary Shares Number'' \<in> set (index bs)
        then series_lines F ''   '' [] (sort_index (loc bs ''Ordinary Shares Number''))
        else [])
     @ ''\<newline>''
     @ ''9. Latest Cash Flow Data:\<newline>''
     @ (if \<not> empty cf then
          latest_line F ''   Operating Cash Flow: '' (iloc0_get cf ''Operating Cash Flow'')
          @ latest_line F ''   Investing Cash Flow: '' (iloc0_get cf ''Investing Cash Flow'')
          @ latest_line F ''   Financing Cash Flow: '' (iloc0_get cf ''Financing Cash Flow'')
        else ''   Cash flow data not available\<newline>'')
     @ ''\<newline>''
     @ ''10. Free Cash Flow for the past 5 years:\<newline>''
     @ (if \<not> empty cf then
          if ''Free Cash Flow'' \<in> set (index cf) then
            series_lines F ''    '' ''$'' (sort_index (loc cf ''Free Cash Flow''))
          else if ''Operating Cash Flow'' \<in> set (index cf)
                  \<and> ''Capital Expenditures'' \<in> set (index cf) then
            let operating_cf = loc cf ''Operating Cash Flow'';
                capex = loc cf ''Capital Expenditures'';
                fcf_calculated = series_add operating_cf capex;
                fcf_sorted = sort_index fcf_calculated
            in ''    (Calculated as Operating Cash Flow - Capital Expenditures)\<newline>''
               @ series_lines F ''    '' ''$'' fcf_sorted
          else ''    Free Cash Flow data not available\<newline>''
        else ''    Cash flow data not available\<newline>'')
     @ ''\<newline>''"

section \<open>The analysis\<close>

text \<open>
  The provider (\<^verbatim>\<open>yf.Ticker\<close>) is a parameter. Creating the ticker object and reading
  each of its four properties may raise; \<open>Inl e\<close> is an exception whose text is \<open>e\<close>.
\<close>

record stock =
  info :: "string + metrics"
  financials :: "string + frame"
  balance_sheet :: "string + frame"
  cashflow :: "string + frame"

type_synonym provider = "string \<Rightarrow> string + stock"

text \<open>
  The value returned: \<^verbatim>\<open>{'success': True, 'checks': ..., 'detailedAnalysis': ...}\<close> or
  \<^verbatim>\<open>{'success': False, 'error': ...}\<close>.
\<close>

datatype response = Success "check list" string | Failure string

definition analyze_stock :: "formats \<Rightarrow> provider \<Rightarrow> string \<Rightarrow> response" where
  "analyze_stock F yf ticker =
     (case yf ticker of Inl e \<Rightarrow> Failure e
      | Inr st \<Rightarrow>
     (case info st of Inl e \<Rightarrow> Failure e
      | Inr infos \<Rightarrow>
        if infos = [] \<or> length infos < 5
        then Failure (''No data found for ticker '' @ ticker)
        else
     (case financials st of Inl e \<Rightarrow> Failure e
      | Inr fin \<Rightarrow>
     (case balance_sheet st of Inl e \<Rightarrow> Failure e
      | Inr bs \<Rightarrow>
     (case cashflow st of Inl e \<Rightarrow> Failure e
      | Inr cf \<Rightarrow>
          Success
            [check1 F infos, check2 fin, check3 fin, check4 fin, check5 F bs,
             check6 F fin bs, check7 bs, check8 bs, check9 cf, check10 cf]
            (generate_detailed_analysis F ticker infos fin bs cf))))))"

section \<open>Example inputs\<close>

text \<open>
  A rendering for the examples: a number is shown as \<open>#\<close> and a NaN as \<open>nan\<close>.
\<close>

definition sample_formats :: formats where
  "sample_formats =
     \<lparr>fmt2 = (\<lambda>v. ''#''),
      fmt2_quot = (\<lambda>a b. case (a, b) of (Some x, Some y) \<Rightarrow> ''#'' | _ \<Rightarrow> ''nan''),
      fmt0 = (\<lambda>v. case v of Some x \<Rightarrow> ''#'' | None \<Rightarrow> ''nan''),
      str_float = (\<lambda>v. ''#''), year_str = (\<lambda>d. ''#'')\<rparr>"




definition no_frame :: frame where
  "no_frame = \<lparr>index = [], columns = [], cells = (\<lambda>l p. None)\<rparr>"

definition five_metrics :: metrics where
  "five_metrics = [(''marketCap'', 1000), (''beta'', 1), (''volume'', 10),
                   (''bid'', 5), (''ask'', 6)]"

definition bare_stock :: stock where
  "bare_stock = \<lparr>info = Inr five_metrics, financials = Inr no_frame,
                 balance_sheet = Inr no_frame, cashflow = Inr no_frame\<rparr>"

definition cf_derived :: frame where
  "cf_derived =
     \<lparr>index = [''Operating Cash Flow'', ''Capital Expenditures''],
      columns = [2023, 2022],
      cells = (\<lambda>l p. if l = ''Operating Cash Flow''
                      then (if p = 2023 then Some 150 else Some 100)
                      else (if p = 2023 then Some (- 30) else Some (- 20)))\<rparr>"

section \<open>Sums of cross products\<close>

lemma pair_sum_expand:
  fixes a b :: "nat \<Rightarrow> real"
  shows "(\<Sum>i<n. \<Sum>j<n. (a i - a j) * (b i - b j))
         = 2 * (real n * (\<Sum>i<n. a i * b i) - (\<Sum>i<n. a i) * (\<Sum>i<n. b i))"
proof -
  define S where "S = (\<Sum>i<n. a i * b i)"
  define X where "X = (\<Sum>i<n. \<Sum>j<n. a i * b j)"
  have sw: "(\<Sum>i<n. \<Sum>j<n. a j * b i) = X"
    unfolding X_def by (rule sum.swap)
  have d1: "(\<Sum>i<n. \<Sum>j<n. a i * b i) = real n * S"
    by (simp add: S_def sum_distrib_left)
  have d2: "(\<Sum>i<n. \<Sum>j<n. a j * b j) = real n * S"
    by (simp add: S_def)
  have X: "X = (\<Sum>i<n. a i) * (\<Sum>i<n. b i)"
    by (simp add: X_def sum_product)
  have "(\<Sum>i<n. \<Sum>j<n. (a i - a j) * (b i - b j))
        = (\<Sum>i<n. \<Sum>j<n. a i * b i) - (\<Sum>i<n. \<Sum>j<n. a i * b j)
          - (\<Sum>i<n. \<Sum>j<n. a j * b i) + (\<Sum>i<n. \<Sum>j<n. a j * b j)"
    by (simp add: algebra_simps sum.distrib sum_subtractf)
  also have "\<dots> = real n * S - X - X + real n * S"
    by (simp only: d1 d2 sw X_def[symmetric])
  also have "\<dots> = 2 * (real n * S - X)"
    by simp
  finally show ?thesis by (simp only: S_def X)
qed

lemma cross_sum_strict:
  fixes a b :: "nat \<Rightarrow> real"
  assumes a: "\<And>i j. i < j \<Longrightarrow> j < n \<Longrightarrow> a i < a j"
    and b: "\<And>i j. i < j \<Longrightarrow> j < n \<Longrightarrow> b i < b j"
    and n: "2 \<le> n"
  shows "(\<Sum>i<n. a i) * (\<Sum>i<n. b i) < real n * (\<Sum>i<n. a i * b i)"
proof -
  have nonneg: "0 \<le> (a i - a j) * (b i - b j)" if "i < n" "j < n" for i j
  proof -
    consider "i < j" | "i = j" | "j < i" by linarith
    then show ?thesis
    proof cases
      case 1
      then have "a i - a j < 0" "b i - b j < 0" using a b that by fastforce+
      then show ?thesis by (simp add: mult_nonpos_nonpos)
    next
      case 2
      then show ?thesis by simp
    next
      case 3
      then have "0 < a i - a j" "0 < b i - b j" using a b that by fastforce+
      then show ?thesis by simp
    qed
  qed
  have "a 0 - a 1 < 0" "b 0 - b 1 < 0" using a[of 0 1] b[of 0 1] n by simp_all
  then have pos01: "0 < (a 0 - a 1) * (b 0 - b 1)" by (rule mult_neg_neg)
  have inner: "0 < (\<Sum>j<n. (a 0 - a j) * (b 0 - b j))"
    by (rule sum_pos2[where i = 1]) (use n pos01 nonneg in auto)
  have "0 < (\<Sum>i<n. \<Sum>j<n. (a i - a j) * (b i - b j))"
    by (rule sum_pos2[where i = 0]) (use n inner nonneg in \<open>auto intro!: sum_nonneg\<close>)
  then show ?thesis by (simp add: pair_sum_expand)
qed

lemma sum_list_zip_nth:
  assumes "length xs = length ys"
  shows "(\<Sum>(x, y) \<leftarrow> zip xs ys. f x y) = (\<Sum>i<length xs. f (xs ! i) (ys ! i))"
proof -
  have "(\<Sum>(x, y) \<leftarrow> zip xs ys. f x y)
        = (\<Sum>i = 0..<length (zip xs ys). (case zip xs ys ! i of (x, y) \<Rightarrow> f x y))"
    by (simp add: sum_list_sum_nth)
  also have "\<dots> = (\<Sum>i<length xs. f (xs ! i) (ys ! i))"
    using assms by (simp add: atLeast0LessThan)
  finally show ?thesis .
qed

lemma sum_list_nth: "sum_list (xs :: real list) = (\<Sum>i<length xs. xs ! i)"
  by (simp add: sum_list_sum_nth atLeast0LessThan)

lemma centred_cross:
  fixes xs ys :: "real list"
  assumes len: "length xs = length ys" and ne: "xs \<noteq> []"
  shows "(\<Sum>(x, y) \<leftarrow> zip xs ys. (x - mean xs) * (y - mean ys))
         = ((\<Sum>i<length xs. xs ! i * ys ! i) * real (length xs) - sum_list xs * sum_list ys)
           / real (length xs)"
proof -
  define n where "n = length xs"
  define A where "A = sum_list xs"
  define B where "B = sum_list ys"
  define P where "P = (\<Sum>i<n. xs ! i * ys ! i)"
  have n: "real n \<noteq> 0" using ne by (simp add: n_def)
  have sx: "(\<Sum>i<n. xs ! i) = A" by (simp add: sum_list_nth n_def A_def)
  have sy: "(\<Sum>i<n. ys ! i) = B" using len by (simp add: sum_list_nth n_def B_def)
  have mx: "mean xs = A / real n" by (simp add: mean_def A_def n_def)
  have my: "mean ys = B / real n" using len by (simp add: mean_def B_def n_def)
  have "(\<Sum>(x, y) \<leftarrow> zip xs ys. (x - mean xs) * (y - mean ys))
        = (\<Sum>i<n. (xs ! i - mean xs) * (ys ! i - mean ys))"
    unfolding n_def using len by (rule sum_list_zip_nth)
  also have "\<dots> = P - mean ys * (\<Sum>i<n. xs ! i)
                   - mean xs * (\<Sum>i<n. ys ! i) + real n * (mean xs * mean ys)"
    by (simp add: P_def algebra_simps sum.distrib sum_subtractf sum_distrib_left)
  also have "\<dots> = P - (B / real n) * A - (A / real n) * B + real n * ((A / real n) * (B / real n))"
    by (simp only: sx sy mx my)
  also have "\<dots> = (P * real n - A * B) / real n"
    using n by (simp add: field_simps)
  finally show ?thesis by (simp add: P_def n_def A_def B_def)
qed

section \<open>Properties of the trend detector\<close>

lemma cov_pos:
  fixes xs ys :: "real list"
  assumes len: "length xs = length ys" and n: "2 \<le> length xs"
    and sx: "sorted_wrt (<) xs" and sy: "sorted_wrt (<) ys"
  shows "0 < (\<Sum>(x, y) \<leftarrow> zip xs ys. (x - mean xs) * (y - mean ys))"
proof -
  have ne: "xs \<noteq> []" using n by auto
  have "sum_list xs * sum_list ys < real (length xs) * (\<Sum>i<length xs. xs ! i * ys ! i)"
    using cross_sum_strict[of "length xs" "\<lambda>i. xs ! i" "\<lambda>i. ys ! i"] sx sy len n
    by (simp add: sorted_wrt_iff_nth_less sum_list_nth)
  then have "0 < ((\<Sum>i<length xs. xs ! i * ys ! i) * real (length xs) - sum_list xs * sum_list ys)
                / real (length xs)"
    using ne by (simp add: mult.commute)
  then show ?thesis
    by (simp only: centred_cross[OF len ne])
qed

lemma cov_neg:
  fixes xs ys :: "real list"
  assumes len: "length xs = length ys" and n: "2 \<le> length xs"
    and sx: "sorted_wrt (<) xs" and sy: "sorted_wrt (>) ys"
  shows "(\<Sum>(x, y) \<leftarrow> zip xs ys. (x - mean xs) * (y - mean ys)) < 0"
proof -
  have ne: "xs \<noteq> []" using n by auto
  have "(\<Sum>i<length xs. xs ! i) * (\<Sum>i<length xs. - ys ! i)
        < real (length xs) * (\<Sum>i<length xs. xs ! i * - ys ! i)"
    using sx sy len n
    by (intro cross_sum_strict) (simp_all add: sorted_wrt_iff_nth_less)
  then have "real (length xs) * (\<Sum>i<length xs. xs ! i * ys ! i) < sum_list xs * sum_list ys"
    using len by (simp add: sum_negf sum_list_nth)
  then have "((\<Sum>i<length xs. xs ! i * ys ! i) * real (length xs) - sum_list xs * sum_list ys)
                / real (length xs) < 0"
    using ne by (simp add: mult.commute divide_less_0_iff)
  then show ?thesis
    by (simp only: centred_cross[OF len ne])
qed

lemma var_pos:
  fixes xs :: "real list"
  assumes "2 \<le> length xs" and "sorted_wrt (<) xs"
  shows "0 < (\<Sum>x \<leftarrow> xs. (x - mean xs)\<^sup>2)"
proof -
  have "(\<Sum>x \<leftarrow> xs. (x - mean xs)\<^sup>2) = (\<Sum>(x, y) \<leftarrow> zip xs xs. (x - mean xs) * (y - mean xs))"
    by (simp add: zip_same_conv_map power2_eq_square comp_def)
  then show ?thesis using cov_pos[of xs xs] assms by simp
qed

lemma snd_filter_zip:
  "length xs = length ys \<Longrightarrow>
     map snd (filter (\<lambda>(y, v). P v) (zip xs ys)) = filter P ys"
  by (induction xs ys rule: list_induct2) auto

lemma length_valid_points: "length (valid_points s) = length (non_missing s)"
proof -
  have "length (valid_points s) = length (map snd (valid_points s))" by simp
  also have "\<dots> = length (filter (\<lambda>v. v \<noteq> None) (map snd s))"
    unfolding valid_points_def by (subst snd_filter_zip) simp_all
  also have "\<dots> = length (non_missing s)"
    by (simp add: non_missing_def filter_map comp_def case_prod_unfold)
  finally show ?thesis .
qed

lemma values_valid_points: "map snd (valid_points s) = map snd (non_missing s)"
  unfolding valid_points_def
  by (subst snd_filter_zip) (simp_all add: non_missing_def filter_map comp_def case_prod_unfold)

lemma check_trend_few:
  "length (non_missing s) < 2 \<Longrightarrow> \<not> check_trend_with_regression s inc"
  using length_valid_points[of s]
  by (simp add: check_trend_with_regression_def valid_points_def Let_def)

lemma check_trend_slope:
  assumes "2 \<le> length (non_missing s)"
  shows "check_trend_with_regression s inc
         = (if inc then 0 < fitted_slope s else fitted_slope s < 0)"
proof -
  have "length (non_missing s) \<le> length s" by (simp add: non_missing_def)
  then have "\<not> length s < 2" using assms by simp
  moreover have "\<not> length (valid_points s) < 2" using assms by (simp add: length_valid_points)
  ultimately show ?thesis
    by (simp add: check_trend_with_regression_def fitted_slope_def valid_points_def Let_def)
qed

lemma years_sorted: "sorted_wrt (<) (map (\<lambda>(y, v). real y) (valid_points s))"
proof -
  have "sorted_wrt (\<lambda>p q. fst p < fst q) (zip [0..<length s] (map snd s))"
    by (simp add: sorted_wrt_iff_nth_less)
  then have "sorted_wrt (\<lambda>p q. fst p < fst q) (valid_points s)"
    unfolding valid_points_def by (rule sorted_wrt_filter)
  then show ?thesis
    by (simp add: sorted_wrt_map case_prod_unfold)
qed




lemma values_clean_eq:
  "map (\<lambda>(y, v). the v) (valid_points s) = map (the \<circ> snd) (non_missing s)"
proof -
  have "map (\<lambda>(y, v). the v) (valid_points s) = map the (map snd (valid_points s))"
    by (simp add: case_prod_unfold comp_def)
  also have "\<dots> = map (the \<circ> snd) (non_missing s)"
    by (simp add: values_valid_points)
  finally show ?thesis .
qed

lemma fitted_slope_sign:
  assumes n: "2 \<le> length (non_missing s)"
  shows "sorted_wrt (<) (map (the \<circ> snd) (non_missing s)) \<Longrightarrow> 0 < fitted_slope s"
    and "sorted_wrt (>) (map (the \<circ> snd) (non_missing s)) \<Longrightarrow> fitted_slope s < 0"
proof -
  let ?xs = "map (\<lambda>(y, v). real y) (valid_points s)"
  let ?ys = "map (\<lambda>(y, v). the v) (valid_points s)"
  have len: "length ?xs = length ?ys" by simp
  have n2: "2 \<le> length ?xs" using n by (simp add: length_valid_points)
  have var: "0 < (\<Sum>x \<leftarrow> ?xs. (x - mean ?xs)\<^sup>2)"
    using n2 years_sorted by (rule var_pos)
  {
    assume "sorted_wrt (<) (map (the \<circ> snd) (non_missing s))"
    then have "sorted_wrt (<) ?ys" by (simp only: values_clean_eq)
    then have "0 < (\<Sum>(x, y) \<leftarrow> zip ?xs ?ys. (x - mean ?xs) * (y - mean ?ys))"
      using len n2 years_sorted by (intro cov_pos)
    then show "0 < fitted_slope s"
      using var by (simp add: fitted_slope_def ols_slope_def Let_def)
  }
  {
    assume "sorted_wrt (>) (map (the \<circ> snd) (non_missing s))"
    then have "sorted_wrt (>) ?ys" by (simp only: values_clean_eq)
    then have "(\<Sum>(x, y) \<leftarrow> zip ?xs ?ys. (x - mean ?xs) * (y - mean ?ys)) < 0"
      using len n2 years_sorted by (intro cov_neg)
    then show "fitted_slope s < 0"
      using var by (simp add: fitted_slope_def ols_slope_def Let_def divide_less_0_iff)
  }
qed

text \<open>
  Claim C6. A series with fewer than two values that are not missing (the empty series and
  a series of missing values included) is given the verdict "no trend" for both
  directions: the detector returns false, it does not fail.
\<close>

theorem few_points_no_trend:
  "length (non_missing s) < 2 \<Longrightarrow>
     \<not> check_trend_with_regression s True \<and> \<not> check_trend_with_regression s False"
  by (simp add: check_trend_few)

theorem few_points_no_trend_witness:
  "length (non_missing [(2020, None), (2021, Some 5), (2022, None)]) < 2
   \<and> \<not> check_trend_with_regression [(2020, None), (2021, Some 5), (2022, None)] True
   \<and> \<not> check_trend_with_regression [(2020, None), (2021, Some 5), (2022, None)] False
   \<and> \<not> check_trend_with_regression [] True \<and> \<not> check_trend_with_regression [] False"
  using few_points_no_trend[of "[(2020, None), (2021, Some 5), (2022, None)]"]
    few_points_no_trend[of "[]"]
  by (simp add: non_missing_def)



text \<open>
  Claim C7. A series, given in ascending period order, with at least two values that are
  not missing and whose values increase strictly is increasing and not decreasing for the
  detector; one whose values decrease strictly is decreasing and not increasing.
\<close>

theorem strictly_monotone_trend:
  assumes "2 \<le> length (non_missing s)"
  shows "(sorted_wrt (<) (map (the \<circ> snd) (non_missing s)) \<longrightarrow>
            check_trend_with_regression s True \<and> \<not> check_trend_with_regression s False)
       \<and> (sorted_wrt (>) (map (the \<circ> snd) (non_missing s)) \<longrightarrow>
            check_trend_with_regression s False \<and> \<not> check_trend_with_regression s True)"
  using fitted_slope_sign[OF assms] check_trend_slope[OF assms, of True]
    check_trend_slope[OF assms, of False]
  by auto

theorem strictly_monotone_trend_witness:
  "2 \<le> length (non_missing [(2020, Some 1), (2021, None), (2022, Some 3), (2023, Some 8)])
   \<and> sorted_wrt (<) (map (the \<circ> snd)
        (non_missing [(2020, Some 1), (2021, None), (2022, Some 3), (2023, Some 8)]))
   \<and> check_trend_with_regression [(2020, Some 1), (2021, None), (2022, Some 3), (2023, Some 8)] True
   \<and> \<not> check_trend_with_regression [(2020, Some 1), (2021, None), (2022, Some 3), (2023, Some 8)] False
   \<and> 2 \<le> length (non_missing [(2020, Some 9), (2021, Some 4), (2022, Some 2)])
   \<and> sorted_wrt (>) (map (the \<circ> snd) (non_missing [(2020, Some 9), (2021, Some 4), (2022, Some 2)]))
   \<and> check_trend_with_regression [(2020, Some 9), (2021, Some 4), (2022, Some 2)] False
   \<and> \<not> check_trend_with_regression [(2020, Some 9), (2021, Some 4), (2022, Some 2)] True"
  using strictly_monotone_trend[of "[(2020, Some 1), (2021, None), (2022, Some 3), (2023, Some 8)]"]
    strictly_monotone_trend[of "[(2020, Some 9), (2021, Some 4), (2022, Some 2)]"]
  by (simp add: non_missing_def)

section \<open>Properties of the checks\<close>

text \<open>
  Claim C10. When the trailing P/E is present and equal to 0 and the trailing PEG is
  absent, check 1 passes (the pass decision tests that the value is there, and 0 < 25),
  yet its details are "PE: N/A, PEG: N/A": the details test the truth value of the
  number, and 0 is false.
\<close>

theorem zero_pe_passes_reported_absent:
  "map_of infos ''trailingPE'' = Some 0 \<Longrightarrow> map_of infos ''trailingPegRatio'' = None \<Longrightarrow>
     passed (check1 F infos) \<and> details (check1 F infos) = ''PE: N/A, PEG: N/A''"
  by (simp add: check1_def)

theorem zero_pe_passes_reported_absent_witness:
  "map_of [(''trailingPE'', 0::real)] ''trailingPE'' = Some 0
   \<and> map_of [(''trailingPE'', 0::real)] ''trailingPegRatio'' = None
   \<and> passed (check1 sample_formats [(''trailingPE'', 0)])
   \<and> details (check1 sample_formats [(''trailingPE'', 0)]) = ''PE: N/A, PEG: N/A''"
  using zero_pe_passes_reported_absent[of "[(''trailingPE'', 0)]" sample_formats]
  by simp





lemma latest_of_loc:
  "columns df \<noteq> [] \<Longrightarrow> snd (hd (loc df l)) = cells df l (hd (columns df))"
  by (cases "columns df") (simp_all add: loc_def)




text \<open>
  Claim C3. When obtaining the data fails, the analysis returns the failure value with the
  text of the error and no list of checks: when the provider raises on the ticker, on the
  metrics or on one of the three tables, and when the metrics hold fewer than five
  entries (the identifier is not recognised).
\<close>

theorem retrieval_failure_no_checks:
  "(yf t = Inl e \<longrightarrow> analyze_stock F yf t = Failure e)
   \<and> (yf t = Inr st \<and> info st = Inl e \<longrightarrow> analyze_stock F yf t = Failure e)
   \<and> (yf t = Inr st \<and> info st = Inr infos \<and> length infos < 5 \<longrightarrow>
        analyze_stock F yf t = Failure (''No data found for ticker '' @ t))
   \<and> (yf t = Inr st \<and> info st = Inr infos \<and> 5 \<le> length infos \<and> financials st = Inl e \<longrightarrow>
        analyze_stock F yf t = Failure e)
   \<and> (yf t = Inr st \<and> info st = Inr infos \<and> 5 \<le> length infos \<and> financials st = Inr fin
        \<and> balance_sheet st = Inl e \<longrightarrow> analyze_stock F yf t = Failure e)
   \<and> (yf t = Inr st \<and> info st = Inr infos \<and> 5 \<le> length infos \<and> financials st = Inr fin
        \<and> balance_sheet st = Inr bs \<and> cashflow st = Inl e \<longrightarrow>
        analyze_stock F yf t = Failure e)"
  by (auto simp: analyze_stock_def)

theorem retrieval_failure_no_checks_witness:
  "analyze_stock sample_formats (\<lambda>t. Inl ''no network'') ''XYZ'' = Failure ''no network''
   \<and> analyze_stock sample_formats (\<lambda>t. Inr (bare_stock\<lparr>info := Inl ''bad reply''\<rparr>)) ''XYZ''
       = Failure ''bad reply''
   \<and> analyze_stock sample_formats (\<lambda>t. Inr (bare_stock\<lparr>info := Inr []\<rparr>)) ''XYZ''
       = Failure ''No data found for ticker XYZ''
   \<and> analyze_stock sample_formats (\<lambda>t. Inr (bare_stock\<lparr>financials := Inl ''e1''\<rparr>)) ''XYZ''
       = Failure ''e1''
   \<and> analyze_stock sample_formats (\<lambda>t. Inr (bare_stock\<lparr>balance_sheet := Inl ''e2''\<rparr>)) ''XYZ''
       = Failure ''e2''
   \<and> analyze_stock sample_formats (\<lambda>t. Inr (bare_stock\<lparr>cashflow := Inl ''e3''\<rparr>)) ''XYZ''
       = Failure ''e3''"
  using
    retrieval_failure_no_checks[where yf = "\<lambda>t. Inl ''no network''" and t = "''XYZ''"
      and e = "''no network''" and F = sample_formats]
    retrieval_failure_no_checks[where yf = "\<lambda>t. Inr (bare_stock\<lparr>info := Inl ''bad reply''\<rparr>)"
      and t = "''XYZ''" and e = "''bad reply''" and F = sample_formats
      and st = "bare_stock\<lparr>info := Inl ''bad reply''\<rparr>"]
    retrieval_failure_no_checks[where yf = "\<lambda>t. Inr (bare_stock\<lparr>info := Inr []\<rparr>)"
      and t = "''XYZ''" and F = sample_formats
      and st = "bare_stock\<lparr>info := Inr []\<rparr>" and infos = "[]"]
    retrieval_failure_no_checks[where yf = "\<lambda>t. Inr (bare_stock\<lparr>financials := Inl ''e1''\<rparr>)"
      and t = "''XYZ''" and e = "''e1''" and F = sample_formats
      and st = "bare_stock\<lparr>financials := Inl ''e1''\<rparr>" and infos = five_metrics]
    retrieval_failure_no_checks[where yf = "\<lambda>t. Inr (bare_stock\<lparr>balance_sheet := Inl ''e2''\<rparr>)"
      and t = "''XYZ''" and e = "''e2''" and F = sample_formats
      and st = "bare_stock\<lparr>balance_sheet := Inl ''e2''\<rparr>" and infos = five_metrics
      and fin = no_frame]
    retrieval_failure_no_checks[where yf = "\<lambda>t. Inr (bare_stock\<lparr>cashflow := Inl ''e3''\<rparr>)"
      and t = "''XYZ''" and e = "''e3''" and F = sample_formats
      and st = "bare_stock\<lparr>cashflow := Inl ''e3''\<rparr>" and infos = five_metrics
      and fin = no_frame and bs = no_frame]
  by (simp add: bare_stock_def five_metrics_def)

text \<open>
  Claim C2, evaluated on its example. The table has no "Free Cash Flow" item, columns
  2023 and 2022 (newest first), operating cash flow 100 then 150 and capital expenditures
  -20 then -30 in ascending period order. The derived series is [80, 120] in ascending
  order and the detector finds it increasing; check 10 passes the derived series to the
  detector in column order, [120, 80], without sorting it, and fails.
\<close>

theorem check10_derived_in_column_order:
  "series_add (loc cf_derived ''Operating Cash Flow'') (loc cf_derived ''Capital Expenditures'')
     = [(2023, Some 120), (2022, Some 80)]
   \<and> sort_index [(2023, Some 120), (2022, Some 80)] = [(2022, Some 80), (2023, Some 120)]
   \<and> check_trend_with_regression [(2022, Some 80), (2023, Some 120)] True
   \<and> \<not> check_trend_with_regression [(2023, Some 120), (2022, Some 80)] True
   \<and> \<not> passed (check10 cf_derived)
   \<and> details (check10 cf_derived) = ''Declining calculated FCF''"
  by (simp add: cf_derived_def check10_def empty_def loc_def series_add_def fadd_def
      sort_index_def check_trend_with_regression_def ols_slope_def mean_def upt_rec Let_def)








lemma check5_nan:
  "iloc0_get bs ''Current Assets'' = Some None
     \<or> iloc0_get bs ''Current Liabilities'' = Some None \<Longrightarrow> \<not> passed (check5 F bs)"
  by (auto simp: check5_def fgt_def Let_def split: option.splits)






section \<open>Missing values inside a series\<close>

lemma sum_list_shift:
  fixes xs :: "real list"
  shows "sum_list (map (\<lambda>x. x + c) xs) = sum_list xs + real (length xs) * c"
  by (induction xs) (simp_all add: algebra_simps)

lemma mean_shift:
  assumes "xs \<noteq> []"
  shows "mean (map (\<lambda>x. x + c) xs) = mean xs + c"
proof -
  have "real (length xs) \<noteq> 0" using assms by simp
  then show ?thesis
    by (simp add: mean_def sum_list_shift add_divide_distrib)
qed

lemma ols_slope_shift:
  assumes "xs \<noteq> []"
  shows "ols_slope (map (\<lambda>x. x + c) xs) ys = ols_slope xs ys"
proof -
  have m: "mean (map (\<lambda>x. x + c) xs) = mean xs + c"
    using assms by (rule mean_shift)
  have z: "zip (map (\<lambda>x. x + c) xs) ys = map (\<lambda>(x, y). (x + c, y)) (zip xs ys)"
    by (simp add: zip_map1)
  show ?thesis
    unfolding ols_slope_def Let_def m z
    by (simp add: comp_def case_prod_unfold)
qed

lemma valid_points_positions:
  "map fst (valid_points s) = filter (\<lambda>i. snd (s ! i) \<noteq> None) [0..<length s]"
proof -
  have "zip [0..<length s] (map snd s) = map (\<lambda>i. (i, snd (s ! i))) [0..<length s]"
    by (rule nth_equalityI) simp_all
  then show ?thesis
    by (simp add: valid_points_def filter_map comp_def)
qed


lemma filter_zip_none:
  "\<forall>v\<in>set vs. v = None \<Longrightarrow> filter (\<lambda>(y :: nat, v :: cell). v \<noteq> None) (zip ns vs) = []"
  by (induction vs arbitrary: ns) (simp, case_tac ns, simp_all)

lemma filter_zip_all:
  "\<forall>v\<in>set vs. v \<noteq> None \<Longrightarrow>
     filter (\<lambda>(y :: nat, v :: cell). v \<noteq> None) (zip ns vs) = zip ns vs"
  by (induction vs arbitrary: ns) (simp, case_tac ns, simp_all)

lemma valid_points_contiguous:
  assumes pre: "\<forall>e\<in>set pre. snd e = None" and post: "\<forall>e\<in>set post. snd e = None"
    and mid: "\<forall>e\<in>set mid. snd e \<noteq> None"
  shows "valid_points (pre @ mid @ post)
         = zip [length pre..<length pre + length mid] (map snd mid)"
proof -
  define a where "a = length pre"
  define b where "b = length mid"
  define c where "c = length post"
  have split: "[0..<a + (b + c)] = [0..<a] @ [a..<a + b] @ [a + b..<a + b + c]"
    by (metis add.assoc le_add1 upt_add_eq_append zero_le)
  have z: "zip [0..<a + (b + c)] (map snd pre @ map snd mid @ map snd post)
           = zip [0..<a] (map snd pre) @ zip [a..<a + b] (map snd mid)
             @ zip [a + b..<a + b + c] (map snd post)"
    unfolding split by (simp add: a_def b_def c_def)
  have f1: "filter (\<lambda>(y :: nat, v :: cell). v \<noteq> None) (zip [0..<a] (map snd pre)) = []"
    using pre by (intro filter_zip_none) simp
  have f3: "filter (\<lambda>(y :: nat, v :: cell). v \<noteq> None)
              (zip [a + b..<a + b + c] (map snd post)) = []"
    using post by (intro filter_zip_none) simp
  have f2: "filter (\<lambda>(y :: nat, v :: cell). v \<noteq> None) (zip [a..<a + b] (map snd mid))
            = zip [a..<a + b] (map snd mid)"
    using mid by (intro filter_zip_all) simp
  have "valid_points (pre @ mid @ post)
        = filter (\<lambda>(y :: nat, v :: cell). v \<noteq> None)
            (zip [0..<a + (b + c)] (map snd pre @ map snd mid @ map snd post))"
    by (simp add: valid_points_def a_def b_def c_def)
  also have "\<dots> = zip [a..<a + b] (map snd mid)"
    unfolding z by (simp only: filter_append f1 f2 f3 append_Nil append_Nil2)
  finally show ?thesis by (simp only: a_def b_def)
qed

lemma non_missing_contiguous:
  assumes "\<forall>e\<in>set pre. snd e = None" and "\<forall>e\<in>set post. snd e = None"
    and "\<forall>e\<in>set mid. snd e \<noteq> None"
  shows "non_missing (pre @ mid @ post) = mid"
proof -
  have "filter (\<lambda>(p, v). v \<noteq> None) pre = []"
    using assms(1) by (induction pre) auto
  moreover have "filter (\<lambda>(p, v). v \<noteq> None) post = []"
    using assms(2) by (induction post) auto
  moreover have "filter (\<lambda>(p, v). v \<noteq> None) mid = mid"
    using assms(3) by (induction mid) auto
  ultimately show ?thesis by (simp add: non_missing_def)
qed


lemma fitted_slope_contiguous:
  assumes pre: "\<forall>e\<in>set pre. snd e = None" and post: "\<forall>e\<in>set post. snd e = None"
    and mid: "\<forall>e\<in>set mid. snd e \<noteq> None" and ne: "mid \<noteq> []"
  shows "fitted_slope (pre @ mid @ post) = fitted_slope mid"
proof -
  define a where "a = length pre"
  define b where "b = length mid"
  define vs where "vs = map snd mid"
  have lv: "length vs = b" by (simp add: vs_def b_def)
  have v1: "valid_points (pre @ mid @ post) = zip [a..<a + b] vs"
    unfolding a_def b_def vs_def using pre post mid by (rule valid_points_contiguous)
  have v2: "valid_points mid = zip [0..<b] vs"
    using valid_points_contiguous[of "[]" "[]" mid] mid by (simp add: b_def vs_def)
  have x1: "map (\<lambda>(y, v). real y) (zip [a..<a + b] vs) = map real [a..<a + b]"
    using lv by (intro nth_equalityI) simp_all
  have x2: "map (\<lambda>(y, v). real y) (zip [0..<b] vs) = map real [0..<b]"
    using lv by (intro nth_equalityI) simp_all
  have y1: "map (\<lambda>(y, v). the v) (zip [a..<a + b] vs) = map the vs"
    using lv by (intro nth_equalityI) simp_all
  have y2: "map (\<lambda>(y, v). the v) (zip [0..<b] vs) = map the vs"
    using lv by (intro nth_equalityI) simp_all
  have sh: "map real [a..<a + b] = map (\<lambda>x. x + real a) (map real [0..<b])"
    by (intro nth_equalityI) simp_all
  have nz: "map real [0..<b] \<noteq> []" using ne by (simp add: b_def)
  have "fitted_slope (pre @ mid @ post)
        = ols_slope (map (\<lambda>x. x + real a) (map real [0..<b])) (map the vs)"
    by (simp only: fitted_slope_def v1 x1 y1 sh)
  also have "\<dots> = ols_slope (map real [0..<b]) (map the vs)"
    using nz by (rule ols_slope_shift)
  also have "\<dots> = fitted_slope mid"
    by (simp only: fitted_slope_def v2 x2 y2)
  finally show ?thesis .
qed

lemma check_trend_contiguous:
  assumes pre: "\<forall>e\<in>set pre. snd e = None" and post: "\<forall>e\<in>set post. snd e = None"
    and mid: "\<forall>e\<in>set mid. snd e \<noteq> None"
  shows "check_trend_with_regression (pre @ mid @ post) inc = check_trend_with_regression mid inc"
proof -
  have nm1: "non_missing (pre @ mid @ post) = mid"
    using pre post mid by (rule non_missing_contiguous)
  have nm2: "non_missing mid = mid"
    using non_missing_contiguous[of "[]" "[]" mid] mid by simp
  show ?thesis
  proof (cases "length mid < 2")
    case True
    have "\<not> check_trend_with_regression (pre @ mid @ post) inc"
      by (rule check_trend_few) (simp only: nm1 True)
    moreover have "\<not> check_trend_with_regression mid inc"
      by (rule check_trend_few) (simp only: nm2 True)
    ultimately show ?thesis by simp
  next
    case False
    then have ne: "mid \<noteq> []" by auto
    have l1: "2 \<le> length (non_missing (pre @ mid @ post))"
      using False by (simp add: nm1)
    have l2: "2 \<le> length (non_missing mid)"
      using False by (simp add: nm2)
    show ?thesis
      by (simp only: check_trend_slope[OF l1] check_trend_slope[OF l2]
          fitted_slope_contiguous[OF pre post mid ne])
  qed
qed

text \<open>
  Claim C4, as stated, fails. In the series 0, 4, NaN, NaN, NaN, 1 the detector regresses
  the values 0, 4, 1 against the positions 0, 1, 5 they have in the series: the slope is
  negative and the series is not increasing. The subseries 0, 4, 1 of the values that are
  not missing is regressed against 0, 1, 2: the slope is positive and it is increasing.
\<close>

theorem gap_changes_verdict:
  "\<not> check_trend_with_regression
       [(2018, Some 0), (2019, Some 4), (2020, None), (2021, None), (2022, None),
        (2023, Some 1)] True
   \<and> non_missing
       [(2018, Some 0), (2019, Some 4), (2020, None), (2021, None), (2022, None),
        (2023, Some 1)]
     = [(2018, Some 0), (2019, Some 4), (2023, Some 1)]
   \<and> check_trend_with_regression [(2018, Some 0), (2019, Some 4), (2023, Some 1)] True"
proof -
  have a: "\<not> check_trend_with_regression
       [(2018, Some 0), (2019, Some 4), (2020, None), (2021, None), (2022, None),
        (2023, Some 1)] True"
    by (simp add: check_trend_with_regression_def ols_slope_def mean_def upt_rec Let_def)
  have b: "non_missing
       [(2018, Some 0), (2019, Some 4), (2020, None), (2021, None), (2022, None),
        (2023, Some (1::real))]
     = [(2018, Some 0), (2019, Some 4), (2023, Some 1)]"
    by (simp add: non_missing_def)
  have c: "check_trend_with_regression [(2018, Some 0), (2019, Some 4), (2023, Some 1)] True"
    by (simp add: check_trend_with_regression_def ols_slope_def mean_def upt_rec Let_def)
  show ?thesis by (intro conjI) (fact a b c)+
qed

text \<open>
  Claim C4, amended. The detector drops the entries whose value is missing and fits the
  line against the positions that the remaining entries have in the whole series, which
  are not renumbered. With at least two such entries its verdict is the sign of the slope
  fitted to these points. When the entries that are not missing are consecutive in the
  series (missing values only before the first and after the last of them), the verdict
  is the one of the subseries of the entries that are not missing.
\<close>

theorem regression_on_original_positions:
  "map fst (valid_points s) = filter (\<lambda>i. snd (s ! i) \<noteq> None) [0..<length s]
   \<and> (2 \<le> length (non_missing s) \<longrightarrow>
        check_trend_with_regression s inc
        = (if inc then 0 < fitted_slope s else fitted_slope s < 0))
   \<and> ((\<forall>e\<in>set pre. snd e = None) \<and> (\<forall>e\<in>set post. snd e = None)
        \<and> (\<forall>e\<in>set mid. snd e \<noteq> None) \<longrightarrow>
        non_missing (pre @ mid @ post) = mid
        \<and> check_trend_with_regression (pre @ mid @ post) inc
          = check_trend_with_regression (non_missing (pre @ mid @ post)) inc)"
proof -
  have a: "map fst (valid_points s) = filter (\<lambda>i. snd (s ! i) \<noteq> None) [0..<length s]"
    by (rule valid_points_positions)
  have b: "2 \<le> length (non_missing s) \<longrightarrow>
        check_trend_with_regression s inc
        = (if inc then 0 < fitted_slope s else fitted_slope s < 0)"
    by (rule impI) (rule check_trend_slope)
  have c: "(\<forall>e\<in>set pre. snd e = None) \<and> (\<forall>e\<in>set post. snd e = None)
        \<and> (\<forall>e\<in>set mid. snd e \<noteq> None) \<longrightarrow>
        non_missing (pre @ mid @ post) = mid
        \<and> check_trend_with_regression (pre @ mid @ post) inc
          = check_trend_with_regression (non_missing (pre @ mid @ post)) inc"
  proof (intro impI, elim conjE)
    assume h: "\<forall>e\<in>set pre. snd e = None" "\<forall>e\<in>set post. snd e = None"
      "\<forall>e\<in>set mid. snd e \<noteq> None"
    have nm: "non_missing (pre @ mid @ post) = mid"
      using h by (rule non_missing_contiguous)
    have "check_trend_with_regression (pre @ mid @ post) inc
          = check_trend_with_regression mid inc"
      using h by (rule check_trend_contiguous)
    with nm show "non_missing (pre @ mid @ post) = mid
        \<and> check_trend_with_regression (pre @ mid @ post) inc
          = check_trend_with_regression (non_missing (pre @ mid @ post)) inc"
      by simp
  qed
  show ?thesis by (intro conjI) (fact a b c)+
qed

theorem regression_on_original_positions_witness:
  "map fst (valid_points [(2019, None), (2020, Some 1), (2021, Some 3), (2022, None)]) = [1, 2]
   \<and> non_missing ([(2019, None)] @ [(2020, Some 1), (2021, Some 3)] @ [(2022, None)])
       = [(2020, Some 1), (2021, Some 3)]
   \<and> check_trend_with_regression
        ([(2019, None)] @ [(2020, Some 1), (2021, Some 3)] @ [(2022, None)]) True
   \<and> 0 < fitted_slope [(2019, None), (2020, Some 1), (2021, Some 3), (2022, None)]"
proof -
  have nm: "length (non_missing [(2019::int, None), (2020, Some (1::real)), (2021, Some 3),
              (2022, None)]) = 2"
    by (simp add: non_missing_def)
  have ct: "check_trend_with_regression [(2020, Some 1), (2021, Some 3)] True"
    by (simp add: check_trend_with_regression_def ols_slope_def mean_def upt_rec Let_def)
  have f: "filter (\<lambda>i. snd ([(2019::int, None), (2020, Some (1::real)), (2021, Some 3),
              (2022, None)] ! i) \<noteq> None) [0..<4] = [1, 2]"
    by (simp add: upt_rec)
  show ?thesis
    using regression_on_original_positions[of
        "[(2019, None), (2020, Some 1), (2021, Some 3), (2022, None)]" True
        "[(2019, None)]" "[(2022, None)]" "[(2020, Some 1), (2021, Some 3)]"]
    by (auto simp: nm ct f)
qed

section \<open>The debt ratio of check 6\<close>




end
